theory Spec2Isabelle
  imports Main "HOL-Library.Sublist"
begin

section \<open>Python strings and integers\<close>

text \<open>
  Strings are lists of 8-bit characters, so the model covers ASCII text: the case
  conversions and the whitespace class below are Python's restricted to ASCII.
\<close>

datatype error = IndexError | AttributeError | FileNotFoundError | ValueError

definition digit_char :: "nat \<Rightarrow> char" where
  "digit_char d = ''0123456789'' ! d"

function py_str_nat :: "nat \<Rightarrow> string" where
  "py_str_nat n = (if n < 10 then [digit_char n] else py_str_nat (n div 10) @ [digit_char (n mod 10)])"
  by pat_completeness auto
termination
  by (relation "measure id") auto

declare py_str_nat.simps [simp del]

text \<open>\<open>str(i)\<close> of a Python \<open>int\<close>, which is what an f-string field renders.\<close>

definition py_str_int :: "int \<Rightarrow> string" where
  "py_str_int i = (if i < 0 then CHR ''-'' # py_str_nat (nat (- i)) else py_str_nat (nat i))"

definition ascii_upper :: string where
  "ascii_upper = ''ABCDEFGHIJKLMNOPQRSTUVWXYZ''"

definition ascii_lower :: string where
  "ascii_lower = ''abcdefghijklmnopqrstuvwxyz''"

definition lower_char :: "char \<Rightarrow> char" where
  "lower_char c = (case map_of (zip ascii_upper ascii_lower) c of Some l \<Rightarrow> l | None \<Rightarrow> c)"

definition upper_char :: "char \<Rightarrow> char" where
  "upper_char c = (case map_of (zip ascii_lower ascii_upper) c of Some u \<Rightarrow> u | None \<Rightarrow> c)"

definition py_lower :: "string \<Rightarrow> string" where
  "py_lower s = map lower_char s"

text \<open>The characters \<open>str.strip()\<close> removes: tab to carriage return, the four
  separators \<open>0x1c\<close> to \<open>0x1f\<close>, and the space.\<close>

definition is_space :: "char \<Rightarrow> bool" where
  "is_space c = (c \<in> set [CHR 0x09, CHR 0x0A, CHR 0x0B, CHR 0x0C, CHR 0x0D,
                            CHR 0x1C, CHR 0x1D, CHR 0x1E, CHR 0x1F, CHR '' ''])"

definition py_strip :: "string \<Rightarrow> string" where
  "py_strip s = rev (dropWhile is_space (rev (dropWhile is_space s)))"

definition py_startswith :: "string \<Rightarrow> string \<Rightarrow> bool" where
  "py_startswith s p = (take (length p) s = p)"

text \<open>\<open>s.replace(old, new)\<close>: every non-overlapping occurrence, from the left.\<close>

function py_replace :: "string \<Rightarrow> string \<Rightarrow> string \<Rightarrow> string" where
  "py_replace [] old new = (if old = [] then new else [])"
| "py_replace (c # cs) old new =
     (if old = [] then new @ c # py_replace cs old new
      else if py_startswith (c # cs) old then new @ py_replace (drop (length old) (c # cs)) old new
      else c # py_replace cs old new)"
  by pat_completeness auto
termination
  by (relation "measure (\<lambda>(s, old, new). length s)") auto

section \<open>Scenario parameters\<close>

record ScenarioParameters =
  ssps :: "string list"
  rcps :: "string list"
  pr_adoption_rates :: "int list"
  technology_levels :: "string list"
  supply_capacities :: "string list"
  allocation_regulations :: "string list"

definition default_parameters :: ScenarioParameters where
  "default_parameters = \<lparr>
     ssps = [''SSP1'', ''SSP2'', ''SSP3'', ''SSP4'', ''SSP5''],
     rcps = [''2p6'', ''4p5'', ''6p0'', ''8p5''],
     pr_adoption_rates = [0, 25, 50, 75, 100],
     technology_levels = [''Basic'', ''Advanced''],
     supply_capacities = [''Low'', ''Medium'', ''High''],
     allocation_regulations = [''Market-driven'', ''Regulatory''] \<rparr>"

definition total_scenarios :: "ScenarioParameters \<Rightarrow> nat" where
  "total_scenarios P =
     length (ssps P) * length (rcps P) * length (pr_adoption_rates P) *
     length (technology_levels P) * length (supply_capacities P) *
     length (allocation_regulations P)"

text \<open>A parameter tuple, in the order \<open>(ssp, rcp, pr_rate, tech, supply, allocation)\<close>.\<close>

type_synonym scenario = "string \<times> string \<times> int \<times> string \<times> string \<times> string"

section \<open>Policy-variant code\<close>

text \<open>\<open>BaseTemplateManager._get_spa_code\<close>: the two dictionaries are association lists,
  \<open>dict.get(ssp, "0")\<close> is the lookup with a default.\<close>

definition spa_mapping :: "string \<Rightarrow> (string \<times> string) list" where
  "spa_mapping rcp =
     (if rcp = ''6p0''
      then [(''SSP1'', ''1''), (''SSP2'', ''235''), (''SSP3'', ''235''), (''SSP4'', ''4''), (''SSP5'', ''0'')]
      else [(''SSP1'', ''1''), (''SSP2'', ''23''), (''SSP3'', ''23''), (''SSP4'', ''4''), (''SSP5'', ''5'')])"

definition get_spa_code :: "string \<Rightarrow> string \<Rightarrow> string" where
  "get_spa_code ssp rcp = (case map_of (spa_mapping rcp) ssp of Some c \<Rightarrow> c | None \<Rightarrow> ''0'')"

section \<open>Scenario names\<close>

text \<open>\<open>GCAMConfigurationGenerator.generate_scenario_name\<close>. \<open>supply[0]\<close> raises
  \<open>IndexError\<close> on the empty string.\<close>

definition generate_scenario_name ::
  "string \<Rightarrow> string \<Rightarrow> int \<Rightarrow> string \<Rightarrow> string \<Rightarrow> string \<Rightarrow> error + string" where
  "generate_scenario_name ssp rcp pr_rate tech supply allocation =
     (let tech_short = (if tech = ''Advanced'' then ''Tech'' else ''Basic'') in
      case supply of
        [] \<Rightarrow> Inl IndexError
      | c # _ \<Rightarrow>
          (let supply_short = [c];
               alloc_short = (if allocation = ''Regulatory'' then ''Reg'' else ''Mkt'')
           in Inr (ssp @ ''_'' @ rcp @ ''_'' @ tech_short @ ''_'' @ supply_short @ ''_'' @
                   alloc_short @ ''_PR'' @ py_str_int pr_rate)))"

text \<open>The unpacking \<open>ssp, rcp, pr_rate, tech, supply, allocation = scenario_params\<close>
  followed by the call, as \<open>_generate_single_scenario\<close> does it.\<close>

definition scenario_name :: "scenario \<Rightarrow> error + string" where
  "scenario_name sc =
     (case sc of (ssp, rcp, pr_rate, tech, supply, allocation) \<Rightarrow>
        generate_scenario_name ssp rcp pr_rate tech supply allocation)"

text \<open>The name as the specification words it: the supply initial is put in upper case.\<close>

definition spec_scenario_name ::
  "string \<Rightarrow> string \<Rightarrow> int \<Rightarrow> string \<Rightarrow> string \<Rightarrow> string \<Rightarrow> string" where
  "spec_scenario_name ssp rcp pr_rate tech supply allocation =
     ssp @ ''_'' @ rcp @ ''_'' @ (if tech = ''Advanced'' then ''Tech'' else ''Basic'') @ ''_'' @
     [upper_char (hd supply)] @ ''_'' @
     (if allocation = ''Regulatory'' then ''Reg'' else ''Mkt'') @ ''_PR'' @ py_str_int pr_rate"

section \<open>Enumerating the combinations\<close>

text \<open>\<open>_generate_combinations\<close>: \<open>if ssp_filter:\<close> is false for \<open>None\<close> and for the empty
  list; \<open>itertools.product\<close> varies its last argument fastest.\<close>

definition itertools_product ::
  "'a list \<Rightarrow> 'b list \<Rightarrow> 'c list \<Rightarrow> 'd list \<Rightarrow> 'e list \<Rightarrow> 'f list \<Rightarrow>
   ('a \<times> 'b \<times> 'c \<times> 'd \<times> 'e \<times> 'f) list" where
  "itertools_product as bs cs ds es fs =
     concat (map (\<lambda>a. concat (map (\<lambda>b. concat (map (\<lambda>c. concat (map (\<lambda>d.
       concat (map (\<lambda>e. map (\<lambda>f. (a, b, c, d, e, f)) fs) es)) ds)) cs)) bs)) as)"

definition generate_combinations :: "ScenarioParameters \<Rightarrow> string list option \<Rightarrow> scenario list" where
  "generate_combinations P ssp_filter =
     (let filtered_ssps =
            (case ssp_filter of
               None \<Rightarrow> ssps P
             | Some f \<Rightarrow> if f = [] then ssps P else filter (\<lambda>ssp. ssp \<in> set f) (ssps P))
      in itertools_product filtered_ssps (rcps P) (pr_adoption_rates P) (technology_levels P)
           (supply_capacities P) (allocation_regulations P))"

section \<open>Element trees\<close>

text \<open>
  An \<open>xml.etree.ElementTree.Element\<close>: its tag (a string, or the marker \<open>ET.Comment\<close> of a
  comment node), its attribute dictionary in insertion order, its text and tail (\<open>None\<close> or
  a string) and its children in document order.
\<close>

datatype tag = Tag string | Comment

datatype xml = Element (el_tag: tag) (el_attrib: "(string \<times> string) list")
  (el_text: "string option") (el_tail: "string option") (el_children: "xml list")

definition set_text :: "string \<Rightarrow> xml \<Rightarrow> xml" where
  "set_text v e = Element (el_tag e) (el_attrib e) (Some v) (el_tail e) (el_children e)"

definition set_children :: "xml list \<Rightarrow> xml \<Rightarrow> xml" where
  "set_children cs e = Element (el_tag e) (el_attrib e) (el_text e) (el_tail e) cs"

text \<open>\<open>root.find(name)\<close> for a plain tag name: the first direct child with that tag.\<close>

definition find_child :: "xml \<Rightarrow> string \<Rightarrow> xml option" where
  "find_child root name = List.find (\<lambda>e. el_tag e = Tag name) (el_children root)"

text \<open>\<open>root.findall(".//Value")\<close> visits every proper descendant in document order.\<close>

fun descendants :: "xml \<Rightarrow> xml list" where
  "descendants (Element tg atts tx ta cs) = concat (map (\<lambda>c. c # descendants c) cs)"

text \<open>
  The code reaches an element inside a tree through a reference (\<open>find\<close>, or the loop
  variable of a \<open>for\<close> with \<open>break\<close>) and mutates it in place. On a tree value this is the
  replacement of the first element of a list that passes a test.
\<close>

fun update_first :: "('a \<Rightarrow> bool) \<Rightarrow> ('a \<Rightarrow> 'a) \<Rightarrow> 'a list \<Rightarrow> 'a list" where
  "update_first P f [] = []"
| "update_first P f (x # xs) = (if P x then f x # xs else x # update_first P f xs)"

definition in_section :: "string \<Rightarrow> (xml \<Rightarrow> xml) \<Rightarrow> xml \<Rightarrow> xml" where
  "in_section name f root =
     set_children (update_first (\<lambda>e. el_tag e = Tag name) f (el_children root)) root"

text \<open>The loop \<open>for element in section: if element.tag == "Value" and
  element.get("name") == key: element.text = v; break\<close>.\<close>

definition set_value_text :: "string \<Rightarrow> string \<Rightarrow> xml \<Rightarrow> xml" where
  "set_value_text key v section =
     set_children
       (update_first (\<lambda>e. el_tag e = Tag ''Value'' \<and> map_of (el_attrib e) ''name'' = Some key)
          (set_text v) (el_children section))
       section"

section \<open>Files\<close>

text \<open>
  What the process finds at a path when it reads an XML file: nothing, a file that
  \<open>ET.parse\<close> rejects or that cannot be read, or a document with its parsed root. A written
  file is kept as the tree that \<open>ET.tostring\<close> serialises. An output path keeps the directory
  and the file name of \<open>output_path / file_name\<close> apart.
\<close>

datatype xml_file = Missing | Malformed | Parsed xml

datatype path = Path (path_parent: string) (path_name: string)

record env =
  ssp_files_directory :: string
  file_at :: "string \<Rightarrow> xml_file"
  writable :: "path \<Rightarrow> bool"

text \<open>\<open>os.path.join\<close> of two components on POSIX.\<close>

definition os_path_join :: "string \<Rightarrow> string \<Rightarrow> string" where
  "os_path_join a b =
     (if py_startswith b ''/'' then b
      else if a = [] then b
      else if last a = CHR ''/'' then a @ b
      else a @ ''/'' @ b)"

section \<open>Component extractor\<close>

type_synonym component = "string \<times> string"

text \<open>One \<open>Value\<close> element: \<open>if name and path\<close> holds when both are non-empty strings.\<close>

definition value_component :: "xml \<Rightarrow> component option" where
  "value_component value_elem =
     (case map_of (el_attrib value_elem) ''name'' of
        None \<Rightarrow> None
      | Some name \<Rightarrow>
          (case el_text value_elem of
             None \<Rightarrow> None
           | Some path \<Rightarrow> if name \<noteq> [] \<and> path \<noteq> [] then Some (name, py_strip path) else None))"

text \<open>The comments among the root's children; \<open>elem.text.strip()\<close> raises
  \<open>AttributeError\<close> when the text is \<open>None\<close>.\<close>

fun comment_components :: "xml list \<Rightarrow> error + component list" where
  "comment_components [] = Inr []"
| "comment_components (elem # rest) =
     (if el_tag elem = Comment then
        (case el_text elem of
           None \<Rightarrow> Inl AttributeError
         | Some t \<Rightarrow>
             (let comment_text = py_strip t in
              case comment_components rest of
                Inl e \<Rightarrow> Inl e
              | Inr cs \<Rightarrow>
                  Inr ((''COMMENT_'' @ py_replace (py_replace (py_lower comment_text) '' '' ''_'') ''-'' ''_'',
                        ''<!-- '' @ comment_text @ '' -->'') # cs)))
      else comment_components rest)"

text \<open>The body of \<open>SSPComponentExtractor.extract_ssp_components\<close>, without the cache.
  Every exception inside the \<open>try\<close> ends in \<open>return []\<close>.\<close>

definition read_ssp_components :: "env \<Rightarrow> string \<Rightarrow> component list" where
  "read_ssp_components E ssp =
     (let ssp_file_path = os_path_join (ssp_files_directory E) (ssp @ ''_config.xml'') in
      case file_at E ssp_file_path of
        Missing \<Rightarrow> []
      | Malformed \<Rightarrow> []
      | Parsed root \<Rightarrow>
          (let components =
                 List.map_filter value_component
                   (filter (\<lambda>e. el_tag e = Tag ''Value'') (descendants root))
           in case comment_components (el_children root) of
                Inl e \<Rightarrow> []
              | Inr comments \<Rightarrow> components @ comments))"

section \<open>Program state\<close>

text \<open>
  Element trees are mutable objects that the code shares by reference. The store holds the
  trees the process has in memory; a reference to a tree's root is its index in the store.
  \<open>copy.deepcopy\<close> puts an equal tree at a fresh index; a mutation through a reference
  replaces the tree at that index. The cache is the table of \<open>lru_cache(maxsize=10)\<close>, most
  recently used entry first. \<open>written\<close> lists the files written, the latest first.
\<close>

record state =
  store :: "xml list"
  template_root :: nat
  cache :: "(string \<times> component list) list"
  written :: "(path \<times> xml) list"

definition deepcopy :: "state \<Rightarrow> nat \<Rightarrow> (nat \<times> state) option" where
  "deepcopy st r =
     (if r < length (store st)
      then Some (length (store st), st\<lparr>store := store st @ [store st ! r]\<rparr>)
      else None)"

definition mutate :: "nat \<Rightarrow> (xml \<Rightarrow> xml) \<Rightarrow> state \<Rightarrow> state" where
  "mutate r f st = st\<lparr>store := (store st)[r := f (store st ! r)]\<rparr>"

text \<open>\<open>extract_ssp_components\<close> behind \<open>lru_cache\<close>: a hit returns the stored list and
  moves the entry to the front; a miss runs the body, stores the result (the empty list as
  well) and drops the least recently used entry beyond ten.\<close>

definition extract_ssp_components :: "env \<Rightarrow> state \<Rightarrow> string \<Rightarrow> component list \<times> state" where
  "extract_ssp_components E st ssp =
     (case map_of (cache st) ssp of
        Some components \<Rightarrow>
          (components, st\<lparr>cache := (ssp, components) # filter (\<lambda>kv. fst kv \<noteq> ssp) (cache st)\<rparr>)
      | None \<Rightarrow>
          (let components = read_ssp_components E ssp
           in (components, st\<lparr>cache := take 10 ((ssp, components) # cache st)\<rparr>)))"

section \<open>Base template manager\<close>

definition load_template :: "env \<Rightarrow> string \<Rightarrow> error + xml" where
  "load_template E template_path =
     (case file_at E template_path of
        Missing \<Rightarrow> Inl FileNotFoundError
      | Malformed \<Rightarrow> Inl ValueError
      | Parsed root \<Rightarrow> Inr root)"

definition update_scenario_name :: "string \<Rightarrow> xml \<Rightarrow> xml" where
  "update_scenario_name scenario root =
     in_section ''Strings'' (set_value_text ''scenarioName'' scenario) root"

definition update_policy_target :: "string \<Rightarrow> string \<Rightarrow> xml \<Rightarrow> xml" where
  "update_policy_target rcp ssp root =
     in_section ''Files''
       (set_value_text ''policy-target-file''
          (''../input/policy/policy_target_'' @ rcp @ ''_spa'' @ get_spa_code ssp rcp @ ''.xml''))
       root"

definition update_database_location :: "string \<Rightarrow> xml \<Rightarrow> xml" where
  "update_database_location scenario root =
     in_section ''Files'' (set_value_text ''xmldb-location'' (''../output/db_'' @ scenario)) root"

text \<open>\<open>create_scenario_config\<close>: the three updates go through the reference to the copy.
  A reference outside the store does not exist in Python; the model answers \<open>None\<close> there.\<close>

definition create_scenario_config ::
  "state \<Rightarrow> string \<Rightarrow> string \<Rightarrow> string \<Rightarrow> (nat \<times> state) option" where
  "create_scenario_config st scenario rcp ssp =
     (case deepcopy st (template_root st) of
        None \<Rightarrow> None
      | Some (scenario_root, st1) \<Rightarrow>
          Some (scenario_root,
                mutate scenario_root (update_database_location scenario)
                  (mutate scenario_root (update_policy_target rcp ssp)
                     (mutate scenario_root (update_scenario_name scenario) st1))))"

text \<open>The node the loop of \<open>append_ssp_components\<close> builds for one entry:
  \<open>ET.Comment(f" {comment_text} ")\<close> or \<open>ET.SubElement(section, "Value", name=name)\<close> with its
  text set.\<close>

definition component_node :: "component \<Rightarrow> xml" where
  "component_node entry =
     (case entry of (name, path) \<Rightarrow>
        if py_startswith name ''COMMENT_'' \<and> py_startswith path ''<!--'' then
          (let comment_text = py_strip (py_replace (py_replace path ''<!--'' []) ''-->'' [])
           in Element Comment [] (Some ('' '' @ comment_text @ '' '')) None [])
        else Element (Tag ''Value'') [(''name'', name)] (Some path) None [])"

definition append_component :: "xml \<Rightarrow> component \<Rightarrow> xml" where
  "append_component section entry =
     set_children (el_children section @ [component_node entry]) section"

definition append_ssp_components :: "state \<Rightarrow> nat \<Rightarrow> component list \<Rightarrow> state" where
  "append_ssp_components st root components =
     (case find_child (store st ! root) ''ScenarioComponents'' of
        None \<Rightarrow> st
      | Some scenario_section \<Rightarrow>
          mutate root
            (in_section ''ScenarioComponents'' (\<lambda>section. foldl append_component section components))
            st)"

text \<open>The classification as the specification words it: the reserved prefix of the name
  alone decides.\<close>

definition spec_component_node :: "component \<Rightarrow> xml" where
  "spec_component_node entry =
     (case entry of (name, path) \<Rightarrow>
        if py_startswith name ''COMMENT_'' then
          Element Comment []
            (Some ('' '' @ py_strip (py_replace (py_replace path ''<!--'' []) ''-->'' []) @ '' ''))
            None []
        else Element (Tag ''Value'') [(''name'', name)] (Some path) None [])"

section \<open>Configuration generator\<close>

definition new_generator :: "env \<Rightarrow> error + state" where
  "new_generator E =
     (case load_template E ''configuration_reuse100.xml'' of
        Inl e \<Rightarrow> Inl e
      | Inr root \<Rightarrow> Inr \<lparr>store = [root], template_root = 0, cache = [], written = []\<rparr>)"

text \<open>What one call of \<open>_generate_single_scenario\<close> ends in: an exception that leaves the
  function, or a returned value, \<open>None\<close> or the path of the file.\<close>

datatype task_outcome = Raised error | Returned "path option"

definition output_file :: "string \<Rightarrow> string \<Rightarrow> path" where
  "output_file output_path scenario = Path output_path (scenario @ ''.xml'')"

text \<open>
  \<open>_generate_single_scenario\<close>. The name is computed before the \<open>try\<close>, so its
  \<open>IndexError\<close> leaves the function; everything after it is inside the \<open>try\<close>, whose
  handler returns \<open>None\<close>. \<open>open(output_file, "w")\<close> raises where the environment refuses
  the write.
\<close>

definition generate_single_scenario ::
  "env \<Rightarrow> string \<Rightarrow> state \<Rightarrow> scenario \<Rightarrow> task_outcome \<times> state" where
  "generate_single_scenario E output_path st scenario_params =
     (case scenario_params of (ssp, rcp, pr_rate, tech, supply, allocation) \<Rightarrow>
        (case generate_scenario_name ssp rcp pr_rate tech supply allocation of
           Inl e \<Rightarrow> (Raised e, st)
         | Inr scenario \<Rightarrow>
             (case create_scenario_config st scenario rcp ssp of
                None \<Rightarrow> (Returned None, st)
              | Some (config_root, st1) \<Rightarrow>
                  (case extract_ssp_components E st1 ssp of (ssp_components, st2) \<Rightarrow>
                     if ssp_components = [] then (Returned None, st2)
                     else
                       (let components_to_add = map (\<lambda>(name, path). (name, path)) ssp_components;
                            st3 = append_ssp_components st2 config_root components_to_add;
                            file = output_file output_path scenario;
                            xml_string = store st3 ! config_root
                        in if writable E file
                           then (Returned (Some file), st3\<lparr>written := (file, xml_string) # written st3\<rparr>)
                           else (Returned None, st3))))))"

text \<open>\<open>_generate_sequential\<close>: an exception of one scenario is caught and logged, a
  returned path is appended.\<close>

fun sequential_loop ::
  "env \<Rightarrow> string \<Rightarrow> scenario list \<Rightarrow> path list \<times> state \<Rightarrow> path list \<times> state" where
  "sequential_loop E output_path [] acc = acc"
| "sequential_loop E output_path (scenario_params # rest) (generated_files, st) =
     (case generate_single_scenario E output_path st scenario_params of
        (Returned (Some file_path), st1) \<Rightarrow>
          sequential_loop E output_path rest (generated_files @ [file_path], st1)
      | (Returned None, st1) \<Rightarrow> sequential_loop E output_path rest (generated_files, st1)
      | (Raised e, st1) \<Rightarrow> sequential_loop E output_path rest (generated_files, st1))"

definition generate_sequential ::
  "env \<Rightarrow> string \<Rightarrow> state \<Rightarrow> scenario list \<Rightarrow> path list \<times> state" where
  "generate_sequential E output_path st scenarios = sequential_loop E output_path scenarios ([], st)"

text \<open>
  \<open>_generate_concurrent\<close>. What the worker threads do is not modelled. The loop over
  \<open>as_completed\<close> sees one finished future after the other: \<open>completion\<close> is the order in
  which the futures finish (indices into the submitted list) and \<open>results\<close> gives each
  future's outcome, in submission order. The second component is \<open>max_workers\<close>.
\<close>

fun completed_loop :: "task_outcome list \<Rightarrow> path list \<Rightarrow> path list" where
  "completed_loop [] generated_files = generated_files"
| "completed_loop (Returned (Some file_path) # rest) generated_files =
     completed_loop rest (generated_files @ [file_path])"
| "completed_loop (Returned None # rest) generated_files = completed_loop rest generated_files"
| "completed_loop (Raised e # rest) generated_files = completed_loop rest generated_files"

record schedule =
  completion :: "nat list"
  results :: "task_outcome list"

definition generate_concurrent :: "schedule \<Rightarrow> scenario list \<Rightarrow> path list \<times> nat" where
  "generate_concurrent S scenarios =
     (let max_workers = min 8 (length scenarios)
      in (completed_loop (map (\<lambda>i. results S ! i) (completion S)) [], max_workers))"

text \<open>\<open>generate_all_configs\<close> returns the list of files; the model adds the size of the
  worker pool when one was created. The creation of the output directory is left out: a
  write the file system refuses is \<open>writable\<close> of the environment.\<close>

definition generate_all_configs ::
  "env \<Rightarrow> schedule \<Rightarrow> ScenarioParameters \<Rightarrow> state \<Rightarrow> string \<Rightarrow> string list option \<Rightarrow> bool \<Rightarrow>
   path list \<times> nat option" where
  "generate_all_configs E S P st output_directory ssp_filter use_concurrency =
     (let scenario_combinations = generate_combinations P ssp_filter in
      if use_concurrency \<and> length scenario_combinations > 1
      then (case generate_concurrent S scenario_combinations of
              (generated_files, max_workers) \<Rightarrow> (generated_files, Some max_workers))
      else (fst (generate_sequential E output_directory st scenario_combinations), None))"

section \<open>Notions used to state the properties\<close>

text \<open>A client of the template manager: it asks for scenario configurations and appends
  components to the copies it was given, the \<open>k\<close>-th copy returned so far.\<close>

datatype template_call = Create string string string | Append nat "component list"

fun run_calls :: "state \<Rightarrow> nat list \<Rightarrow> template_call list \<Rightarrow> state \<times> nat list" where
  "run_calls st copies [] = (st, copies)"
| "run_calls st copies (Create scenario rcp ssp # calls) =
     (case create_scenario_config st scenario rcp ssp of
        None \<Rightarrow> run_calls st copies calls
      | Some (scenario_root, st1) \<Rightarrow> run_calls st1 (copies @ [scenario_root]) calls)"
| "run_calls st copies (Append k components # calls) =
     (if k < length copies
      then run_calls (append_ssp_components st (copies ! k) components) copies calls
      else run_calls st copies calls)"

text \<open>The tree a scenario configuration is: the template with its three fields patched,
  and the same tree with a list of components appended.\<close>

definition patched_template :: "xml \<Rightarrow> string \<Rightarrow> string \<Rightarrow> string \<Rightarrow> xml" where
  "patched_template t scenario rcp ssp =
     update_database_location scenario (update_policy_target rcp ssp (update_scenario_name scenario t))"

definition with_components :: "component list \<Rightarrow> xml \<Rightarrow> xml" where
  "with_components components doc =
     (case find_child doc ''ScenarioComponents'' of
        None \<Rightarrow> doc
      | Some scenario_section \<Rightarrow>
          in_section ''ScenarioComponents'' (\<lambda>section. foldl append_component section components) doc)"

text \<open>A state the generator can be in while the files it reads stay as they are: the
  template reference points into the store, and every cached list is what reading the
  pathway's file gives.\<close>

definition well_formed :: "env \<Rightarrow> state \<Rightarrow> bool" where
  "well_formed E st =
     (template_root st < length (store st) \<and>
      list_all (\<lambda>kv. snd kv = read_ssp_components E (fst kv)) (cache st))"


text \<open>The outcome of every call that the sequential loop makes, in order.\<close>

fun sequential_outcomes :: "env \<Rightarrow> string \<Rightarrow> state \<Rightarrow> scenario list \<Rightarrow> task_outcome list" where
  "sequential_outcomes E output_path st [] = []"
| "sequential_outcomes E output_path st (scenario_params # rest) =
     (case generate_single_scenario E output_path st scenario_params of
        (oc, st1) \<Rightarrow> oc # sequential_outcomes E output_path st1 rest)"


text \<open>What one scenario's pipeline comes to in a well-formed state, as a function of the
  environment and the tuple alone: its outcome, and the file it writes.\<close>

definition pipeline_succeeds :: "env \<Rightarrow> string \<Rightarrow> string \<Rightarrow> string \<Rightarrow> bool" where
  "pipeline_succeeds E output_path ssp scenario =
     (read_ssp_components E ssp \<noteq> [] \<and> writable E (output_file output_path scenario))"

definition pipeline_outcome :: "env \<Rightarrow> string \<Rightarrow> scenario \<Rightarrow> task_outcome" where
  "pipeline_outcome E output_path sc =
     (case sc of (ssp, rcp, pr_rate, tech, supply, allocation) \<Rightarrow>
        (case generate_scenario_name ssp rcp pr_rate tech supply allocation of
           Inl e \<Rightarrow> Raised e
         | Inr scenario \<Rightarrow>
             if pipeline_succeeds E output_path ssp scenario
             then Returned (Some (output_file output_path scenario))
             else Returned None))"

definition pipeline_writes :: "env \<Rightarrow> string \<Rightarrow> xml \<Rightarrow> scenario \<Rightarrow> (path \<times> xml) list" where
  "pipeline_writes E output_path t sc =
     (case sc of (ssp, rcp, pr_rate, tech, supply, allocation) \<Rightarrow>
        (case generate_scenario_name ssp rcp pr_rate tech supply allocation of
           Inl e \<Rightarrow> []
         | Inr scenario \<Rightarrow>
             if pipeline_succeeds E output_path ssp scenario
             then [(output_file output_path scenario,
                    with_components (read_ssp_components E ssp) (patched_template t scenario rcp ssp))]
             else []))"

section \<open>A small installation\<close>

text \<open>A template with the three regions, the source file of one pathway, and an
  environment that holds both; \<open>SSP2\<close> has no source file.\<close>

definition demo_template :: xml where
  "demo_template =
     Element (Tag ''Configuration'') [] None None
       [Element (Tag ''Strings'') [] None None
          [Element (Tag ''Value'') [(''name'', ''scenarioName'')] (Some ''Reference'') None []],
        Element (Tag ''Files'') [] None None
          [Element (Tag ''Value'') [(''name'', ''xmldb-location'')] (Some ''../output/database'') None [],
           Element (Tag ''Value'') [(''name'', ''policy-target-file'')] (Some ''none'') None []],
        Element (Tag ''ScenarioComponents'') [] None None
          [Element (Tag ''Value'') [(''name'', ''climate'')] (Some ''../input/climate.xml'') None []]]"

definition demo_ssp1 :: xml where
  "demo_ssp1 =
     Element (Tag ''FileSet'') [] None None
       [Element Comment [] (Some '' Socio-economic files '') None [],
        Element (Tag ''Value'') [(''name'', ''pop'')] (Some '' ../input/pop_SSP1.xml '') None []]"

definition demo_env :: env where
  "demo_env =
     \<lparr>ssp_files_directory = ''./'',
      file_at = (\<lambda>p. if p = ''configuration_reuse100.xml'' then Parsed demo_template
                     else if p = ''./SSP1_config.xml'' then Parsed demo_ssp1
                     else Missing),
      writable = (\<lambda>p. True)\<rparr>"

definition demo_state :: state where
  "demo_state = \<lparr>store = [demo_template], template_root = 0, cache = [], written = []\<rparr>"


text \<open>A template that has no components region, loaded by a generator.\<close>

definition bare_template :: xml where
  "bare_template =
     Element (Tag ''Configuration'') [] None None
       [Element (Tag ''Strings'') [] None None
          [Element (Tag ''Value'') [(''name'', ''scenarioName'')] (Some ''Reference'') None []]]"

definition bare_state :: state where
  "bare_state = \<lparr>store = [bare_template], template_root = 0, cache = [], written = []\<rparr>"


section \<open>Properties\<close>

subsection \<open>Policy codes and scenario names\<close>

text \<open>
  Claim C1. The policy-variant code: under \<open>6p0\<close> the pathways \<open>SSP1\<close> to \<open>SSP5\<close> get
  \<open>1\<close>, \<open>235\<close>, \<open>235\<close>, \<open>4\<close> and the fallback \<open>0\<close>; under every other emissions pathway
  \<open>SSP2\<close> and \<open>SSP3\<close> get \<open>23\<close> and \<open>SSP5\<close> gets \<open>5\<close>; a pathway outside the five gets
  \<open>0\<close> under every emissions pathway.
\<close>

theorem get_spa_code_table:
  "get_spa_code ''SSP1'' ''6p0'' = ''1'' \<and>
   get_spa_code ''SSP2'' ''6p0'' = ''235'' \<and>
   get_spa_code ''SSP3'' ''6p0'' = ''235'' \<and>
   get_spa_code ''SSP4'' ''6p0'' = ''4'' \<and>
   get_spa_code ''SSP5'' ''6p0'' = ''0'' \<and>
   (rcp \<noteq> ''6p0'' \<longrightarrow>
      get_spa_code ''SSP2'' rcp = ''23'' \<and> get_spa_code ''SSP3'' rcp = ''23'' \<and>
      get_spa_code ''SSP5'' rcp = ''5'') \<and>
   (ssp \<notin> set [''SSP1'', ''SSP2'', ''SSP3'', ''SSP4'', ''SSP5''] \<longrightarrow> get_spa_code ssp rcp = ''0'')"
  by (simp add: get_spa_code_def spa_mapping_def)

text \<open>The emissions pathway \<open>4p5\<close> and a pathway id that is not in the table.\<close>

theorem get_spa_code_table_witness:
  "''4p5'' \<noteq> ''6p0'' \<and> get_spa_code ''SSP2'' ''4p5'' = ''23'' \<and>
   get_spa_code ''SSP3'' ''4p5'' = ''23'' \<and> get_spa_code ''SSP5'' ''4p5'' = ''5'' \<and>
   ''SSP9'' \<notin> set [''SSP1'', ''SSP2'', ''SSP3'', ''SSP4'', ''SSP5''] \<and>
   get_spa_code ''SSP9'' ''4p5'' = ''0''"
  using get_spa_code_table [of "''4p5''" "''SSP9''"] by simp

lemma py_str_int_rates:
  "py_str_int 0 = ''0''" "py_str_int 25 = ''25''" "py_str_int 50 = ''50''"
  "py_str_int 75 = ''75''" "py_str_int 100 = ''100''"
  by (simp_all add: py_str_int_def py_str_nat.simps digit_char_def)

lemma digit_char_nonzero: "0 < d \<Longrightarrow> d < 10 \<Longrightarrow> digit_char d \<noteq> CHR ''0''"
proof -
  assume "0 < d" "d < 10"
  then have "d \<in> {1, 2, 3, 4, 5, 6, 7, 8, 9}" by auto
  then show ?thesis by (auto simp: digit_char_def)
qed

lemma py_str_nat_nonempty: "py_str_nat n \<noteq> []"
  by (subst py_str_nat.simps) simp

lemma py_str_nat_no_leading_zero: "0 < n \<Longrightarrow> hd (py_str_nat n) \<noteq> CHR ''0''"
proof (induction n rule: py_str_nat.induct)
  case (1 n)
  show ?case
  proof (cases "n < 10")
    case True
    with "1.prems" show ?thesis
      by (subst py_str_nat.simps) (simp add: digit_char_nonzero)
  next
    case False
    then have "0 < n div 10" by simp
    with "1.IH" False have "hd (py_str_nat (n div 10)) \<noteq> CHR ''0''" by simp
    with False show ?thesis
      by (subst py_str_nat.simps) (simp add: py_str_nat_nonempty)
  qed
qed

text \<open>
  Claim C4, as stated, with the supply initial put in upper case: false for a supply
  value that starts with a lower-case letter, which the code copies as it is.
\<close>

theorem generate_scenario_name_counterexample:
  "generate_scenario_name ''SSP1'' ''2p6'' 0 ''Basic'' ''low'' ''Regulatory'' =
     Inr ''SSP1_2p6_Basic_l_Reg_PR0'' \<and>
   spec_scenario_name ''SSP1'' ''2p6'' 0 ''Basic'' ''low'' ''Regulatory'' =
     ''SSP1_2p6_Basic_L_Reg_PR0'' \<and>
   generate_scenario_name ''SSP1'' ''2p6'' 0 ''Basic'' ''low'' ''Regulatory'' \<noteq>
     Inr (spec_scenario_name ''SSP1'' ''2p6'' 0 ''Basic'' ''low'' ''Regulatory'')"
  by (simp add: generate_scenario_name_def spec_scenario_name_def py_str_int_rates
      upper_char_def ascii_lower_def ascii_upper_def)

text \<open>
  Claim C4, amended. For a non-empty supply value the name is
  \<open>{ssp}_{rcp}_{TechShort}_{SupplyInitial}_{AllocShort}_PR{rate}\<close>, where \<open>SupplyInitial\<close>
  is the first character of the supply value as it is written; the rate is rendered in
  decimal, with no leading zero when it is positive. For the supply values \<open>Low\<close>,
  \<open>Medium\<close> and \<open>High\<close> this is the name with the initial in upper case. The empty supply
  value raises \<open>IndexError\<close>.
\<close>

theorem generate_scenario_name_format:
  "(supply \<noteq> [] \<longrightarrow>
      generate_scenario_name ssp rcp pr_rate tech supply allocation =
        Inr (ssp @ ''_'' @ rcp @ ''_'' @ (if tech = ''Advanced'' then ''Tech'' else ''Basic'') @ ''_'' @
             [hd supply] @ ''_'' @ (if allocation = ''Regulatory'' then ''Reg'' else ''Mkt'') @
             ''_PR'' @ py_str_int pr_rate)) \<and>
   (supply \<in> set (supply_capacities default_parameters) \<longrightarrow>
      generate_scenario_name ssp rcp pr_rate tech supply allocation =
        Inr (spec_scenario_name ssp rcp pr_rate tech supply allocation)) \<and>
   (supply = [] \<longrightarrow> generate_scenario_name ssp rcp pr_rate tech supply allocation = Inl IndexError) \<and>
   (0 < pr_rate \<longrightarrow> hd (py_str_int pr_rate) \<noteq> CHR ''0'') \<and>
   py_str_int 0 = ''0'' \<and> py_str_int 25 = ''25'' \<and> py_str_int 100 = ''100''"
proof -
  have 1: "supply \<noteq> [] \<longrightarrow>
      generate_scenario_name ssp rcp pr_rate tech supply allocation =
        Inr (ssp @ ''_'' @ rcp @ ''_'' @ (if tech = ''Advanced'' then ''Tech'' else ''Basic'') @ ''_'' @
             [hd supply] @ ''_'' @ (if allocation = ''Regulatory'' then ''Reg'' else ''Mkt'') @
             ''_PR'' @ py_str_int pr_rate)"
    by (cases "supply") (simp_all add: generate_scenario_name_def)
  have 2: "supply \<in> set (supply_capacities default_parameters) \<longrightarrow>
      generate_scenario_name ssp rcp pr_rate tech supply allocation =
        Inr (spec_scenario_name ssp rcp pr_rate tech supply allocation)"
    by (auto simp: default_parameters_def generate_scenario_name_def spec_scenario_name_def
        upper_char_def ascii_lower_def ascii_upper_def)
  have 3: "supply = [] \<longrightarrow> generate_scenario_name ssp rcp pr_rate tech supply allocation = Inl IndexError"
    by (simp add: generate_scenario_name_def)
  have 4: "0 < pr_rate \<longrightarrow> hd (py_str_int pr_rate) \<noteq> CHR ''0''"
    by (simp add: py_str_int_def py_str_nat_no_leading_zero)
  from 1 2 3 4 show ?thesis by (simp add: py_str_int_rates)
qed

text \<open>The name of one tuple of the configured domains, and the empty supply value.\<close>

theorem generate_scenario_name_format_witness:
  "''Low'' \<noteq> [] \<and> ''Low'' \<in> set (supply_capacities default_parameters) \<and> (0::int) < 25 \<and>
   generate_scenario_name ''SSP2'' ''6p0'' 25 ''Advanced'' ''Low'' ''Market-driven'' =
     Inr ''SSP2_6p0_Tech_L_Mkt_PR25'' \<and>
   generate_scenario_name ''SSP2'' ''6p0'' 25 ''Advanced'' ''Low'' ''Market-driven'' =
     Inr (spec_scenario_name ''SSP2'' ''6p0'' 25 ''Advanced'' ''Low'' ''Market-driven'') \<and>
   hd (py_str_int 25) \<noteq> CHR ''0'' \<and>
   generate_scenario_name ''SSP2'' ''6p0'' 25 ''Advanced'' [] ''Market-driven'' = Inl IndexError"
proof -
  have h: "''Low'' \<noteq> []" "''Low'' \<in> set (supply_capacities default_parameters)" "(0::int) < 25"
    by (simp_all add: default_parameters_def)
  note a = generate_scenario_name_format
    [of "''Low''" "''SSP2''" "''6p0''" 25 "''Advanced''" "''Market-driven''"]
  note b = generate_scenario_name_format
    [of "[]" "''SSP2''" "''6p0''" 25 "''Advanced''" "''Market-driven''"]
  from a h(1) have 1: "generate_scenario_name ''SSP2'' ''6p0'' 25 ''Advanced'' ''Low'' ''Market-driven'' =
      Inr ''SSP2_6p0_Tech_L_Mkt_PR25''"
    by (simp add: py_str_int_rates)
  from a h(2) have 2: "generate_scenario_name ''SSP2'' ''6p0'' 25 ''Advanced'' ''Low'' ''Market-driven'' =
      Inr (spec_scenario_name ''SSP2'' ''6p0'' 25 ''Advanced'' ''Low'' ''Market-driven'')"
    by blast
  from a h(3) have 3: "hd (py_str_int 25) \<noteq> CHR ''0''" by blast
  from b have 4: "generate_scenario_name ''SSP2'' ''6p0'' 25 ''Advanced'' [] ''Market-driven'' = Inl IndexError"
    by blast
  from h 1 2 3 4 show ?thesis by (intro conjI)
qed


lemma set_itertools_product:
  "(a, b, c, d, e, f) \<in> set (itertools_product as bs cs ds es fs) \<longleftrightarrow>
     a \<in> set as \<and> b \<in> set bs \<and> c \<in> set cs \<and> d \<in> set ds \<and> e \<in> set es \<and> f \<in> set fs"
  unfolding itertools_product_def by (simp add: image_iff)

lemma name_head_inj:
  assumes p: "ssp \<in> set (ssps default_parameters)" "ssp' \<in> set (ssps default_parameters)"
      and q: "rcp \<in> set (rcps default_parameters)" "rcp' \<in> set (rcps default_parameters)"
      and s: "supply \<noteq> []" "supply' \<noteq> []"
      and eq: "generate_scenario_name ssp rcp rate tech supply alloc =
               generate_scenario_name ssp' rcp' rate' tech' supply' alloc'"
  shows "ssp = ssp' \<and> rcp = rcp'"
proof -
  from p have lp: "length ssp = length ssp'" by (auto simp: default_parameters_def)
  from q have lq: "length rcp = length rcp'" by (auto simp: default_parameters_def)
  obtain c cs c' cs' where sup: "supply = c # cs" "supply' = c' # cs'"
    using s by (cases "supply"; cases "supply'") auto
  from eq sup lp have 1: "ssp = ssp'"
    by (simp add: generate_scenario_name_def Let_def)
  from eq sup lq 1 have 2: "rcp = rcp'"
    by (simp add: generate_scenario_name_def Let_def)
  from 1 2 show ?thesis by simp
qed

lemma name_tail_inj:
  assumes t: "tech \<in> set (technology_levels default_parameters)"
             "tech' \<in> set (technology_levels default_parameters)"
      and s: "supply \<in> set (supply_capacities default_parameters)"
             "supply' \<in> set (supply_capacities default_parameters)"
      and a: "alloc \<in> set (allocation_regulations default_parameters)"
             "alloc' \<in> set (allocation_regulations default_parameters)"
      and r: "rate \<in> set (pr_adoption_rates default_parameters)"
             "rate' \<in> set (pr_adoption_rates default_parameters)"
      and eq: "generate_scenario_name ssp rcp rate tech supply alloc =
               generate_scenario_name ssp rcp rate' tech' supply' alloc'"
  shows "tech = tech' \<and> supply = supply' \<and> alloc = alloc' \<and> rate = rate'"
proof -
  obtain c cs c' cs' where sup: "supply = c # cs" "supply' = c' # cs'"
    using s by (cases "supply"; cases "supply'") (auto simp: default_parameters_def)
  define T where "T = (if tech = ''Advanced'' then ''Tech'' else ''Basic'')"
  define T' where "T' = (if tech' = ''Advanced'' then ''Tech'' else ''Basic'')"
  define A where "A = (if alloc = ''Regulatory'' then ''Reg'' else ''Mkt'')"
  define A' where "A' = (if alloc' = ''Regulatory'' then ''Reg'' else ''Mkt'')"
  from eq sup have e0: "T @ ''_'' @ [c] @ ''_'' @ A @ ''_PR'' @ py_str_int rate =
      T' @ ''_'' @ [c'] @ ''_'' @ A' @ ''_PR'' @ py_str_int rate'"
    by (simp add: generate_scenario_name_def T_def T'_def A_def A'_def)
  have TT: "T = T'"
    using e0 by (auto simp: T_def T'_def split: if_splits)
  have 1: "tech = tech'"
    using t TT by (auto simp: default_parameters_def T_def T'_def split: if_splits)
  from e0 TT have e1: "c = c'" "A @ ''_PR'' @ py_str_int rate = A' @ ''_PR'' @ py_str_int rate'"
    by simp_all
  have 2: "supply = supply'"
    using s sup e1(1) by (auto simp: default_parameters_def)
  have AA: "A = A'"
    using e1(2) by (auto simp: A_def A'_def split: if_splits)
  have 3: "alloc = alloc'"
    using a AA by (auto simp: default_parameters_def A_def A'_def split: if_splits)
  from e1(2) AA have e2: "py_str_int rate = py_str_int rate'" by simp
  have 4: "rate = rate'"
    using r e2 by (auto simp: default_parameters_def py_str_int_rates)
  from 1 2 3 4 show ?thesis by simp
qed

text \<open>
  Claim C5. Over the configured domains (pathways \<open>SSP1\<close> to \<open>SSP5\<close>, emissions pathways
  \<open>2p6\<close>, \<open>4p5\<close>, \<open>6p0\<close>, \<open>8p5\<close>, rates 0, 25, 50, 75, 100, the two technology levels, the
  three supply capacities and the two allocation regimes) every tuple has a name, and two
  distinct tuples have different names.
\<close>

theorem generate_scenario_name_injective:
  assumes sc: "sc \<in> set (generate_combinations default_parameters None)"
      and sc': "sc' \<in> set (generate_combinations default_parameters None)"
      and ne: "sc \<noteq> sc'"
  shows "scenario_name sc \<noteq> scenario_name sc' \<and> (\<exists>n. scenario_name sc = Inr n)"
proof -
  obtain ssp rcp rate tech sup alloc where t: "sc = (ssp, rcp, rate, tech, sup, alloc)"
    by (cases sc) auto
  obtain ssp' rcp' rate' tech' sup' alloc' where t': "sc' = (ssp', rcp', rate', tech', sup', alloc')"
    by (cases sc') auto
  from sc t have m: "ssp \<in> set (ssps default_parameters)" "rcp \<in> set (rcps default_parameters)"
    "rate \<in> set (pr_adoption_rates default_parameters)"
    "tech \<in> set (technology_levels default_parameters)"
    "sup \<in> set (supply_capacities default_parameters)"
    "alloc \<in> set (allocation_regulations default_parameters)"
    by (simp_all add: generate_combinations_def set_itertools_product)
  from sc' t' have m': "ssp' \<in> set (ssps default_parameters)" "rcp' \<in> set (rcps default_parameters)"
    "rate' \<in> set (pr_adoption_rates default_parameters)"
    "tech' \<in> set (technology_levels default_parameters)"
    "sup' \<in> set (supply_capacities default_parameters)"
    "alloc' \<in> set (allocation_regulations default_parameters)"
    by (simp_all add: generate_combinations_def set_itertools_product)
  from m(5) m'(5) have ne_sup: "sup \<noteq> []" "sup' \<noteq> []"
    by (auto simp: default_parameters_def)
  have "sc = sc'" if eq: "scenario_name sc = scenario_name sc'"
  proof -
    from eq t t' have g: "generate_scenario_name ssp rcp rate tech sup alloc =
        generate_scenario_name ssp' rcp' rate' tech' sup' alloc'"
      by (simp add: scenario_name_def)
    from name_head_inj [OF m(1) m'(1) m(2) m'(2) ne_sup g] have h: "ssp = ssp'" "rcp = rcp'"
      by simp_all
    from g h have g': "generate_scenario_name ssp rcp rate tech sup alloc =
        generate_scenario_name ssp rcp rate' tech' sup' alloc'" by simp
    from name_tail_inj [OF m(4) m'(4) m(5) m'(5) m(6) m'(6) m(3) m'(3) g'] h t t'
    show ?thesis by simp
  qed
  with ne have 1: "scenario_name sc \<noteq> scenario_name sc'" by blast
  from ne_sup(1) t have 2: "\<exists>n. scenario_name sc = Inr n"
    by (cases "sup") (simp_all add: scenario_name_def generate_scenario_name_def)
  from 1 2 show ?thesis by simp
qed

text \<open>Two tuples that differ in the allocation regime alone.\<close>

theorem generate_scenario_name_injective_witness:
  "(''SSP1'', ''2p6'', 0, ''Basic'', ''Low'', ''Market-driven'')
     \<in> set (generate_combinations default_parameters None) \<and>
   (''SSP1'', ''2p6'', 0, ''Basic'', ''Low'', ''Regulatory'')
     \<in> set (generate_combinations default_parameters None) \<and>
   (''SSP1'', ''2p6'', 0::int, ''Basic'', ''Low'', ''Market-driven'') \<noteq>
     (''SSP1'', ''2p6'', 0, ''Basic'', ''Low'', ''Regulatory'') \<and>
   scenario_name (''SSP1'', ''2p6'', 0, ''Basic'', ''Low'', ''Market-driven'') \<noteq>
     scenario_name (''SSP1'', ''2p6'', 0, ''Basic'', ''Low'', ''Regulatory'')"
proof -
  have a: "(''SSP1'', ''2p6'', 0, ''Basic'', ''Low'', ''Market-driven'')
      \<in> set (generate_combinations default_parameters None)"
    by (simp add: generate_combinations_def set_itertools_product default_parameters_def)
  have b: "(''SSP1'', ''2p6'', 0, ''Basic'', ''Low'', ''Regulatory'')
      \<in> set (generate_combinations default_parameters None)"
    by (simp add: generate_combinations_def set_itertools_product default_parameters_def)
  have c: "(''SSP1'', ''2p6'', 0::int, ''Basic'', ''Low'', ''Market-driven'') \<noteq>
      (''SSP1'', ''2p6'', 0, ''Basic'', ''Low'', ''Regulatory'')" by simp
  from generate_scenario_name_injective [OF a b c]
  have d: "scenario_name (''SSP1'', ''2p6'', 0, ''Basic'', ''Low'', ''Market-driven'') \<noteq>
      scenario_name (''SSP1'', ''2p6'', 0, ''Basic'', ''Low'', ''Regulatory'')" by (rule conjunct1)
  from a b c d show ?thesis by (intro conjI)
qed


subsection \<open>The store\<close>

lemma create_scenario_config_eq:
  "template_root st < length (store st) \<Longrightarrow>
   create_scenario_config st scenario rcp ssp =
     Some (length (store st),
           st\<lparr>store := store st @ [patched_template (store st ! template_root st) scenario rcp ssp]\<rparr>)"
  by (simp add: create_scenario_config_def deepcopy_def mutate_def patched_template_def)

lemma append_ssp_components_eq:
  "append_ssp_components st r components =
     st\<lparr>store := (store st)[r := with_components components (store st ! r)]\<rparr>"
  by (simp add: append_ssp_components_def with_components_def mutate_def split: option.split)

lemma run_calls_frame:
  "template_root st < length (store st) \<Longrightarrow>
   list_all (\<lambda>c. c < length (store st) \<and> c \<noteq> template_root st) copies \<Longrightarrow>
   run_calls st copies calls = (st', copies') \<Longrightarrow>
   template_root st' = template_root st \<and> template_root st' < length (store st') \<and>
   store st' ! template_root st' = store st ! template_root st"
proof (induction calls arbitrary: st copies)
  case Nil
  then show ?case by simp
next
  case (Cons call calls)
  show ?case
  proof (cases call)
    case (Create scenario rcp ssp)
    let ?st1 = "st\<lparr>store := store st @ [patched_template (store st ! template_root st) scenario rcp ssp]\<rparr>"
    from Cons.prems(1) have c: "create_scenario_config st scenario rcp ssp = Some (length (store st), ?st1)"
      by (rule create_scenario_config_eq)
    from Cons.prems(3) Create c have r: "run_calls ?st1 (copies @ [length (store st)]) calls = (st', copies')"
      by simp
    have 1: "template_root ?st1 < length (store ?st1)" using Cons.prems(1) by simp
    have 2: "list_all (\<lambda>c. c < length (store ?st1) \<and> c \<noteq> template_root ?st1) (copies @ [length (store st)])"
      using Cons.prems(1,2) by (auto simp: list_all_iff)
    from Cons.IH [OF 1 2 r] have a: "template_root st' = template_root st"
      and b: "template_root st' < length (store st')"
      and c: "store st' ! template_root st' = store ?st1 ! template_root ?st1" by auto
    from Cons.prems(1) have "store ?st1 ! template_root ?st1 = store st ! template_root st"
      by (simp add: nth_append)
    with a b c show ?thesis by simp
  next
    case (Append k components)
    show ?thesis
    proof (cases "k < length copies")
      case True
      let ?st1 = "append_ssp_components st (copies ! k) components"
      from Cons.prems(3) Append True have r: "run_calls ?st1 copies calls = (st', copies')"
        by simp
      from True Cons.prems(2) have k: "copies ! k \<noteq> template_root st"
        by (auto simp: list_all_length)
      have 1: "template_root ?st1 < length (store ?st1)"
        using Cons.prems(1) by (simp add: append_ssp_components_eq)
      have 2: "list_all (\<lambda>c. c < length (store ?st1) \<and> c \<noteq> template_root ?st1) copies"
        using Cons.prems(2) by (simp add: append_ssp_components_eq)
      from Cons.IH [OF 1 2 r] have a: "template_root st' = template_root st"
        and b: "template_root st' < length (store st')"
        and c: "store st' ! template_root st' = store ?st1 ! template_root ?st1"
        by (auto simp: append_ssp_components_eq)
      from k have "store ?st1 ! template_root ?st1 = store st ! template_root st"
        by (simp add: append_ssp_components_eq)
      with a b c show ?thesis by simp
    next
      case False
      with Cons.prems(3) Append have r: "run_calls st copies calls = (st', copies')"
        by simp
      from Cons.IH [OF Cons.prems(1,2) r] show ?thesis .
    qed
  qed
qed


lemma foldl_append_component:
  "foldl append_component section entries =
     set_children (el_children section @ map component_node entries) section"
  by (induction entries arbitrary: "section")
     (simp_all add: append_component_def set_children_def)

lemma find_update_first:
  "List.find P xs = Some x \<Longrightarrow>
   \<exists>pre post. xs = pre @ x # post \<and> list_all (\<lambda>y. \<not> P y) pre \<and> P x \<and>
      update_first P f xs = pre @ f x # post"
proof (induction xs)
  case Nil
  then show ?case by simp
next
  case (Cons y ys)
  show ?case
  proof (cases "P y")
    case True
    with Cons.prems have "y = x" by simp
    with True have "y # ys = [] @ x # ys \<and> list_all (\<lambda>y. \<not> P y) [] \<and> P x \<and>
      update_first P f (y # ys) = [] @ f x # ys" by simp
    then show ?thesis by blast
  next
    case False
    with Cons.prems have "List.find P ys = Some x" by simp
    from Cons.IH [OF this] obtain pre post where
      "ys = pre @ x # post" "list_all (\<lambda>y. \<not> P y) pre" "P x" "update_first P f ys = pre @ f x # post"
      by blast
    with False have "y # ys = (y # pre) @ x # post \<and> list_all (\<lambda>y. \<not> P y) (y # pre) \<and> P x \<and>
      update_first P f (y # ys) = (y # pre) @ f x # post" by simp
    then show ?thesis by blast
  qed
qed

lemma extract_ssp_components_ok:
  assumes "well_formed E st" and "extract_ssp_components E st ssp = (components, st')"
  shows "components = read_ssp_components E ssp \<and> well_formed E st' \<and>
         store st' = store st \<and> template_root st' = template_root st \<and> written st' = written st"
proof (cases "map_of (cache st) ssp")
  case None
  with assms(2) have c: "components = read_ssp_components E ssp"
    and s: "st' = st\<lparr>cache := take 10 ((ssp, read_ssp_components E ssp) # cache st)\<rparr>"
    by (auto simp: extract_ssp_components_def Let_def)
  from assms(1) have "list_all (\<lambda>kv. snd kv = read_ssp_components E (fst kv))
      (take 10 ((ssp, read_ssp_components E ssp) # cache st))"
    unfolding well_formed_def list_all_iff by (auto dest!: in_set_takeD)
  with assms(1) c s show ?thesis by (simp add: well_formed_def)
next
  case (Some v)
  with assms(2) have c: "components = v"
    and s: "st' = st\<lparr>cache := (ssp, v) # filter (\<lambda>kv. fst kv \<noteq> ssp) (cache st)\<rparr>"
    by (auto simp: extract_ssp_components_def)
  from Some have "(ssp, v) \<in> set (cache st)" by (rule map_of_SomeD)
  with assms(1) have v: "v = read_ssp_components E ssp"
    by (auto simp: well_formed_def list_all_iff)
  from assms(1) v have "list_all (\<lambda>kv. snd kv = read_ssp_components E (fst kv))
      ((ssp, v) # filter (\<lambda>kv. fst kv \<noteq> ssp) (cache st))"
    by (auto simp: well_formed_def list_all_iff)
  with assms(1) c s v show ?thesis by (simp add: well_formed_def)
qed


subsection \<open>One scenario in a well-formed state\<close>

lemma generate_single_scenario_ok:
  assumes wf: "well_formed E st"
      and run: "generate_single_scenario E output_path st sc = (oc, st')"
  shows "oc = pipeline_outcome E output_path sc \<and> well_formed E st' \<and>
         template_root st' = template_root st \<and>
         store st' ! template_root st = store st ! template_root st \<and>
         written st' = pipeline_writes E output_path (store st ! template_root st) sc @ written st"
proof -
  obtain ssp rcp pr_rate tech sup allocation where sc: "sc = (ssp, rcp, pr_rate, tech, sup, allocation)"
    by (cases sc) auto
  show ?thesis
  proof (cases "generate_scenario_name ssp rcp pr_rate tech sup allocation")
    case (Inl e)
    with run sc wf show ?thesis
      by (auto simp: generate_single_scenario_def pipeline_outcome_def pipeline_writes_def)
  next
    case (Inr scenario)
    let ?n = "length (store st)"
    let ?t = "store st ! template_root st"
    let ?st1 = "st\<lparr>store := store st @ [patched_template ?t scenario rcp ssp]\<rparr>"
    from wf have tr: "template_root st < ?n" by (simp add: well_formed_def)
    then have cr: "create_scenario_config st scenario rcp ssp = Some (?n, ?st1)"
      by (rule create_scenario_config_eq)
    from wf have wf1: "well_formed E ?st1" by (simp add: well_formed_def)
    obtain components st2 where ex: "extract_ssp_components E ?st1 ssp = (components, st2)"
      by (cases "extract_ssp_components E ?st1 ssp") auto
    from extract_ssp_components_ok [OF wf1 ex]
    have c: "components = read_ssp_components E ssp" and wf2: "well_formed E st2"
      and s2: "store st2 = store ?st1" and t2: "template_root st2 = template_root st"
      and w2: "written st2 = written st" by simp_all
    show ?thesis
    proof (cases "components = []")
      case True
      with run sc Inr cr ex have "oc = Returned None" "st' = st2"
        by (simp_all add: generate_single_scenario_def)
      with True c wf2 s2 t2 w2 tr sc Inr show ?thesis
        by (simp add: pipeline_outcome_def pipeline_writes_def pipeline_succeeds_def nth_append)
    next
      case False
      let ?st3 = "append_ssp_components st2 ?n components"
      let ?file = "output_file output_path scenario"
      have s3: "store ?st3 = store st @ [with_components components (patched_template ?t scenario rcp ssp)]"
        by (simp add: append_ssp_components_eq s2)
      have wf3: "well_formed E ?st3"
        using wf2 by (simp add: append_ssp_components_eq well_formed_def)
      have t3: "template_root ?st3 = template_root st" "written ?st3 = written st"
        using t2 w2 by (simp_all add: append_ssp_components_eq)
      show ?thesis
      proof (cases "writable E ?file")
        case True
        with run sc Inr cr ex False have "oc = Returned (Some ?file)"
          "st' = ?st3\<lparr>written := (?file, store ?st3 ! ?n) # written ?st3\<rparr>"
          by (simp_all add: generate_single_scenario_def Let_def)
        with True False c wf3 s3 t3 tr sc Inr show ?thesis
          by (simp add: pipeline_outcome_def pipeline_writes_def pipeline_succeeds_def nth_append
              well_formed_def)
      next
        case nw: False
        with run sc Inr cr ex False have "oc = Returned None" "st' = ?st3"
          by (simp_all add: generate_single_scenario_def Let_def)
        with nw False c wf3 s3 t3 tr sc Inr show ?thesis
          by (simp add: pipeline_outcome_def pipeline_writes_def pipeline_succeeds_def nth_append)
      qed
    qed
  qed
qed


subsection \<open>The sequential loop\<close>

lemma completed_loop_acc:
  "completed_loop ocs acc = acc @ completed_loop ocs []"
proof (induction ocs arbitrary: acc)
  case Nil
  then show ?case by simp
next
  case (Cons oc ocs)
  show ?case
  proof (cases oc)
    case (Raised e)
    with Cons.IH [of acc] show ?thesis by simp
  next
    case (Returned r)
    show ?thesis
    proof (cases r)
      case None
      with Returned Cons.IH [of acc] show ?thesis by simp
    next
      case (Some f)
      with Returned Cons.IH [of "acc @ [f]"] Cons.IH [of "[f]"] show ?thesis by simp
    qed
  qed
qed

lemma completed_loop_Cons:
  "completed_loop (oc # ocs) [] =
     (case oc of Returned r \<Rightarrow> (case r of Some f \<Rightarrow> f # completed_loop ocs [] | None \<Rightarrow> completed_loop ocs [])
      | Raised e \<Rightarrow> completed_loop ocs [])"
proof (cases oc)
  case (Raised e)
  then show ?thesis by simp
next
  case (Returned r)
  show ?thesis
  proof (cases r)
    case None
    with Returned show ?thesis by simp
  next
    case (Some f)
    with Returned completed_loop_acc [of ocs "[f]"] show ?thesis by simp
  qed
qed

lemma sequential_loop_step:
  "generate_single_scenario E output_path st sc = (oc, st1) \<Longrightarrow>
   sequential_loop E output_path (sc # scs) (acc, st) =
     sequential_loop E output_path scs (acc @ completed_loop [oc] [], st1)"
proof (cases oc)
  case (Raised e)
  assume "generate_single_scenario E output_path st sc = (oc, st1)"
  with Raised show ?thesis by simp
next
  case (Returned r)
  assume "generate_single_scenario E output_path st sc = (oc, st1)"
  with Returned show ?thesis by (cases r) simp_all
qed

declare sequential_loop.simps(2) [simp del]

lemma sequential_loop_files:
  "fst (sequential_loop E output_path scs (acc, st)) =
     acc @ completed_loop (sequential_outcomes E output_path st scs) []"
proof (induction scs arbitrary: acc st)
  case Nil
  then show ?case by simp
next
  case (Cons sc scs)
  obtain oc st1 where g: "generate_single_scenario E output_path st sc = (oc, st1)"
    by (cases "generate_single_scenario E output_path st sc") auto
  have "completed_loop (oc # sequential_outcomes E output_path st1 scs) [] =
        completed_loop [oc] [] @ completed_loop (sequential_outcomes E output_path st1 scs) []"
    by (simp add: completed_loop_Cons split: task_outcome.split option.split)
  with g Cons.IH [of "acc @ completed_loop [oc] []" st1] show ?case
    by (simp add: sequential_loop_step)
qed

lemma sequential_outcomes_wf:
  "well_formed E st \<Longrightarrow>
   sequential_outcomes E output_path st scs = map (pipeline_outcome E output_path) scs"
proof (induction scs arbitrary: st)
  case Nil
  then show ?case by simp
next
  case (Cons sc scs)
  obtain oc st1 where g: "generate_single_scenario E output_path st sc = (oc, st1)"
    by (cases "generate_single_scenario E output_path st sc") auto
  from generate_single_scenario_ok [OF Cons.prems g]
  have "oc = pipeline_outcome E output_path sc" "well_formed E st1" by simp_all
  with g Cons.IH [of st1] show ?case by simp
qed



subsection \<open>The batch driver\<close>









text \<open>
  Claim C9. \<open>generate_all_configs\<close> takes the concurrent path, and creates a worker pool
  (of \<open>min(8, n)\<close> workers), exactly when \<open>use_concurrency\<close> is true and there are at
  least two combinations; otherwise it returns what the sequential path returns and no
  pool is created.
\<close>

theorem generate_all_configs_dispatch:
  "generate_all_configs E S P st output_directory ssp_filter use_concurrency =
     (if use_concurrency \<and> 2 \<le> length (generate_combinations P ssp_filter)
      then (fst (generate_concurrent S (generate_combinations P ssp_filter)),
            Some (min 8 (length (generate_combinations P ssp_filter))))
      else (fst (generate_sequential E output_directory st (generate_combinations P ssp_filter)), None))"
  by (simp add: generate_all_configs_def generate_concurrent_def Let_def)


subsection \<open>A missing pathway file\<close>








subsection \<open>The small installation\<close>

lemma demo_read_ssp1:
  "read_ssp_components demo_env ''SSP1'' =
     [(''pop'', ''../input/pop_SSP1.xml''),
      (''COMMENT_socio_economic_files'', ''<!-- Socio-economic files -->'')]"
  by (simp add: read_ssp_components_def demo_env_def demo_ssp1_def os_path_join_def
      py_startswith_def value_component_def List.map_filter_simps py_strip_def is_space_def
      py_lower_def lower_char_def ascii_upper_def ascii_lower_def)




lemma demo_writable: "writable demo_env file"
  by (simp add: demo_env_def)





subsection \<open>The canonical template and the components region\<close>

lemma new_generator_state:
  "new_generator E = Inr st0 \<Longrightarrow>
   \<exists>t. file_at E ''configuration_reuse100.xml'' = Parsed t \<and>
       st0 = \<lparr>store = [t], template_root = 0, cache = [], written = []\<rparr>"
  by (auto simp: new_generator_def load_template_def split: xml_file.splits)

lemma created_copy:
  "template_root st < length (store st) \<Longrightarrow>
   map_option (\<lambda>(r, s). store s ! r) (create_scenario_config st scenario rcp ssp) =
     Some (patched_template (store st ! template_root st) scenario rcp ssp) \<and>
   map_option (\<lambda>(r, s). store s ! template_root s) (create_scenario_config st scenario rcp ssp) =
     Some (store st ! template_root st)"
  by (simp add: create_scenario_config_eq nth_append)

text \<open>
  Claim C2. A generator loads its template; a client then makes any sequence of calls of
  \<open>create_scenario_config\<close> and of \<open>append_ssp_components\<close> on copies it was given. After
  them the canonical tree is the tree loaded from the template file, a further
  \<open>create_scenario_config\<close> leaves it so, and the copy that call returns is the one the same
  call returns in the initial state: the loaded template with its three fields patched.
\<close>

theorem create_scenario_config_frame:
  assumes gen: "new_generator E = Inr st0"
      and run: "run_calls st0 [] calls = (st, copies)"
  shows "file_at E ''configuration_reuse100.xml'' = Parsed (store st ! template_root st) \<and>
         store st ! template_root st = store st0 ! template_root st0 \<and>
         map_option (\<lambda>(r, s). store s ! template_root s) (create_scenario_config st scenario rcp ssp) =
           Some (store st0 ! template_root st0) \<and>
         map_option (\<lambda>(r, s). store s ! r) (create_scenario_config st scenario rcp ssp) =
           map_option (\<lambda>(r, s). store s ! r) (create_scenario_config st0 scenario rcp ssp) \<and>
         map_option (\<lambda>(r, s). store s ! r) (create_scenario_config st scenario rcp ssp) =
           Some (patched_template (store st0 ! template_root st0) scenario rcp ssp)"
proof -
  from new_generator_state [OF gen] obtain t where
    f: "file_at E ''configuration_reuse100.xml'' = Parsed t" and
    s0: "st0 = \<lparr>store = [t], template_root = 0, cache = [], written = []\<rparr>" by blast
  from s0 have r0: "template_root st0 < length (store st0)" and t0: "store st0 ! template_root st0 = t"
    by simp_all
  have "list_all (\<lambda>c. c < length (store st0) \<and> c \<noteq> template_root st0) []" by simp
  from run_calls_frame [OF r0 this run]
  have a: "template_root st = template_root st0" and b: "template_root st < length (store st)"
    and c: "store st ! template_root st = store st0 ! template_root st0" by auto
  note c1 = created_copy [OF b, of scenario rcp ssp]
  note c0 = created_copy [OF r0, of scenario rcp ssp]
  from f c t0 have 1: "file_at E ''configuration_reuse100.xml'' = Parsed (store st ! template_root st)"
    by simp
  from c1 c have 3: "map_option (\<lambda>(r, s). store s ! template_root s)
      (create_scenario_config st scenario rcp ssp) = Some (store st0 ! template_root st0)"
    by simp
  from c1 c have 5: "map_option (\<lambda>(r, s). store s ! r) (create_scenario_config st scenario rcp ssp) =
      Some (patched_template (store st0 ! template_root st0) scenario rcp ssp)"
    by simp
  from c0 have "map_option (\<lambda>(r, s). store s ! r) (create_scenario_config st0 scenario rcp ssp) =
      Some (patched_template (store st0 ! template_root st0) scenario rcp ssp)"
    by (rule conjunct1)
  with 5 have 4: "map_option (\<lambda>(r, s). store s ! r) (create_scenario_config st scenario rcp ssp) =
      map_option (\<lambda>(r, s). store s ! r) (create_scenario_config st0 scenario rcp ssp)"
    by (rule trans [OF _ sym])
  from 1 c 3 4 5 show ?thesis by (intro conjI)
qed

text \<open>Two configurations are created in the small installation and components are appended
  to the first; the canonical tree is the demo template, and a third call returns it
  patched.\<close>

theorem create_scenario_config_frame_witness:
  "new_generator demo_env = Inr demo_state \<and>
   run_calls demo_state []
     [Create ''A'' ''6p0'' ''SSP1'', Append 0 [(''pop'', ''p.xml'')], Create ''B'' ''4p5'' ''SSP2''] =
     (fst (run_calls demo_state []
        [Create ''A'' ''6p0'' ''SSP1'', Append 0 [(''pop'', ''p.xml'')], Create ''B'' ''4p5'' ''SSP2'']),
      [1, 2]) \<and>
   store (fst (run_calls demo_state []
        [Create ''A'' ''6p0'' ''SSP1'', Append 0 [(''pop'', ''p.xml'')], Create ''B'' ''4p5'' ''SSP2''])) ! 0 =
     demo_template \<and>
   map_option (\<lambda>(r, s). store s ! r)
     (create_scenario_config (fst (run_calls demo_state []
        [Create ''A'' ''6p0'' ''SSP1'', Append 0 [(''pop'', ''p.xml'')], Create ''B'' ''4p5'' ''SSP2'']))
        ''C'' ''6p0'' ''SSP5'') =
     Some (patched_template demo_template ''C'' ''6p0'' ''SSP5'')"
proof -
  let ?calls = "[Create ''A'' ''6p0'' ''SSP1'', Append 0 [(''pop'', ''p.xml'')], Create ''B'' ''4p5'' ''SSP2'']"
  have g: "new_generator demo_env = Inr demo_state"
    by (simp add: new_generator_def load_template_def demo_env_def demo_state_def)
  have "snd (run_calls demo_state [] ?calls) = [1, 2]"
    by (simp add: demo_state_def create_scenario_config_eq append_ssp_components_eq)
  then have r: "run_calls demo_state [] ?calls = (fst (run_calls demo_state [] ?calls), [1, 2])"
    by (metis prod.collapse)
  have t: "template_root (fst (run_calls demo_state [] ?calls)) = 0"
    by (simp add: demo_state_def create_scenario_config_eq append_ssp_components_eq)
  have d: "store demo_state ! template_root demo_state = demo_template"
    by (simp add: demo_state_def)
  note w = create_scenario_config_frame [OF g r, of "''C''" "''6p0''" "''SSP5''"]
  from w have "store (fst (run_calls demo_state [] ?calls)) !
      template_root (fst (run_calls demo_state [] ?calls)) = store demo_state ! template_root demo_state"
    by blast
  then have 1: "store (fst (run_calls demo_state [] ?calls)) ! 0 = demo_template"
    by (simp only: t d)
  from w have "map_option (\<lambda>(r, s). store s ! r)
      (create_scenario_config (fst (run_calls demo_state [] ?calls)) ''C'' ''6p0'' ''SSP5'') =
      Some (patched_template (store demo_state ! template_root demo_state) ''C'' ''6p0'' ''SSP5'')"
    by blast
  then have 2: "map_option (\<lambda>(r, s). store s ! r)
      (create_scenario_config (fst (run_calls demo_state [] ?calls)) ''C'' ''6p0'' ''SSP5'') =
      Some (patched_template demo_template ''C'' ''6p0'' ''SSP5'')"
    by (simp only: d)
  from g r 1 2 show ?thesis by (intro conjI)
qed

text \<open>
  Claim C3, as stated, with the reserved prefix of the name alone deciding: false for an
  entry whose name has the prefix and whose value does not begin with \<open><!--\<close>. The code
  appends it as a data node.
\<close>

theorem append_ssp_components_counterexample:
  "find_child (store (append_ssp_components demo_state 0 [(''COMMENT_note'', ''plain text'')]) ! 0)
     ''ScenarioComponents'' =
     Some (Element (Tag ''ScenarioComponents'') [] None None
       [Element (Tag ''Value'') [(''name'', ''climate'')] (Some ''../input/climate.xml'') None [],
        Element (Tag ''Value'') [(''name'', ''COMMENT_note'')] (Some ''plain text'') None []]) \<and>
   spec_component_node (''COMMENT_note'', ''plain text'') =
     Element Comment [] (Some '' plain text '') None [] \<and>
   component_node (''COMMENT_note'', ''plain text'') \<noteq> spec_component_node (''COMMENT_note'', ''plain text'')"
  by (simp add: append_ssp_components_eq with_components_def demo_state_def demo_template_def
      find_child_def in_section_def set_children_def append_component_def component_node_def
      spec_component_node_def py_startswith_def py_strip_def is_space_def)

text \<open>
  Claim C3, amended. When the document has a components region, the first child of the
  root with that tag, \<open>append_ssp_components\<close> changes that region alone: its children are
  the former ones followed by one node per input entry, in input order, with no entry
  dropped or merged. An entry becomes a comment node when its name begins with
  \<open>COMMENT_\<close> and its value begins with \<open><!--\<close> (the comment text is the value with every
  \<open><!--\<close> and \<open>-->\<close> removed, stripped, between two spaces); every other entry becomes a
  \<open>Value\<close> node with the name as attribute and the value as text.
\<close>

theorem append_ssp_components_appends:
  assumes sec: "find_child (store st ! root) ''ScenarioComponents'' = Some section"
  shows "\<exists>pre post.
           el_children (store st ! root) = pre @ section # post \<and>
           list_all (\<lambda>e. el_tag e \<noteq> Tag ''ScenarioComponents'') pre \<and>
           append_ssp_components st root entries =
             st\<lparr>store := (store st)[root :=
               set_children
                 (pre @ set_children (el_children section @ map component_node entries) section # post)
                 (store st ! root)]\<rparr> \<and>
           length (map component_node entries) = length entries \<and>
           map component_node entries =
             map (\<lambda>(name, path).
                    if py_startswith name ''COMMENT_'' \<and> py_startswith path ''<!--''
                    then Element Comment []
                           (Some ('' '' @ py_strip (py_replace (py_replace path ''<!--'' []) ''-->'' []) @ '' ''))
                           None []
                    else Element (Tag ''Value'') [(''name'', name)] (Some path) None [])
               entries"
proof -
  let ?P = "\<lambda>e. el_tag e = Tag ''ScenarioComponents''"
  let ?F = "\<lambda>section. foldl append_component section entries"
  from sec have "List.find ?P (el_children (store st ! root)) = Some section"
    by (simp add: find_child_def)
  from find_update_first [OF this, of ?F] obtain pre post where
    1: "el_children (store st ! root) = pre @ section # post" and
    2: "list_all (\<lambda>e. \<not> ?P e) pre" and
    3: "update_first ?P ?F (el_children (store st ! root)) = pre @ ?F section # post"
    by blast
  from sec 3 have 4: "append_ssp_components st root entries =
      st\<lparr>store := (store st)[root :=
        set_children
          (pre @ set_children (el_children section @ map component_node entries) section # post)
          (store st ! root)]\<rparr>"
    by (simp add: append_ssp_components_eq with_components_def in_section_def foldl_append_component)
  have 5: "map component_node entries =
      map (\<lambda>(name, path).
             if py_startswith name ''COMMENT_'' \<and> py_startswith path ''<!--''
             then Element Comment []
                    (Some ('' '' @ py_strip (py_replace (py_replace path ''<!--'' []) ''-->'' []) @ '' ''))
                    None []
             else Element (Tag ''Value'') [(''name'', name)] (Some path) None [])
        entries"
    by (rule map_cong) (auto simp: component_node_def)
  show ?thesis
    by (rule exI [of _ pre], rule exI [of _ post]) (intro conjI 1 2 4 5 length_map)
qed

text \<open>A comment entry and a data entry appended to the demo template's region.\<close>

theorem append_ssp_components_appends_witness:
  "find_child (store demo_state ! 0) ''ScenarioComponents'' =
     Some (Element (Tag ''ScenarioComponents'') [] None None
       [Element (Tag ''Value'') [(''name'', ''climate'')] (Some ''../input/climate.xml'') None []]) \<and>
   find_child
     (store (append_ssp_components demo_state 0
        [(''COMMENT_socio'', ''<!-- Socio files -->''), (''pop'', ''../input/pop.xml'')]) ! 0)
     ''ScenarioComponents'' =
     Some (Element (Tag ''ScenarioComponents'') [] None None
       [Element (Tag ''Value'') [(''name'', ''climate'')] (Some ''../input/climate.xml'') None [],
        Element Comment [] (Some '' Socio files '') None [],
        Element (Tag ''Value'') [(''name'', ''pop'')] (Some ''../input/pop.xml'') None []])"
proof -
  let ?sec = "Element (Tag ''ScenarioComponents'') [] None None
       [Element (Tag ''Value'') [(''name'', ''climate'')] (Some ''../input/climate.xml'') None []]"
  let ?entries = "[(''COMMENT_socio'', ''<!-- Socio files -->''), (''pop'', ''../input/pop.xml'')]"
  have h: "find_child (store demo_state ! 0) ''ScenarioComponents'' = Some ?sec"
    by (simp add: demo_state_def demo_template_def find_child_def)
  from append_ssp_components_appends [OF h, of ?entries] obtain pre post where
    1: "el_children (store demo_state ! 0) = pre @ ?sec # post" and
    2: "list_all (\<lambda>e. el_tag e \<noteq> Tag ''ScenarioComponents'') pre" and
    3: "append_ssp_components demo_state 0 ?entries =
          demo_state\<lparr>store := (store demo_state)[0 :=
            set_children (pre @ set_children (el_children ?sec @ map component_node ?entries) ?sec # post)
              (store demo_state ! 0)]\<rparr>"
    by blast
  have c: "map component_node ?entries =
      [Element Comment [] (Some '' Socio files '') None [],
       Element (Tag ''Value'') [(''name'', ''pop'')] (Some ''../input/pop.xml'') None []]"
    by (simp add: component_node_def py_startswith_def py_strip_def is_space_def)
  have fc: "find_child (set_children (pre @ x # post) d) ''ScenarioComponents'' = Some x"
    if "el_tag x = Tag ''ScenarioComponents''" for x d
    using 2 that by (induction pre) (simp_all add: find_child_def set_children_def)
  have e: "store (append_ssp_components demo_state 0 ?entries) ! 0 =
      set_children (pre @ set_children (el_children ?sec @ map component_node ?entries) ?sec # post)
        (store demo_state ! 0)"
    unfolding 3 by (simp add: demo_state_def)
  have "find_child (store (append_ssp_components demo_state 0 ?entries) ! 0) ''ScenarioComponents'' =
      Some (set_children (el_children ?sec @ map component_node ?entries) ?sec)"
    unfolding e by (rule fc) (simp add: set_children_def)
  with c h show ?thesis by (simp add: set_children_def)
qed


lemma map_el_tag_update_first:
  "(\<And>x. el_tag (f x) = el_tag x) \<Longrightarrow> map el_tag (update_first P f xs) = map el_tag xs"
  by (induction xs) simp_all

lemma find_child_None_iff:
  "find_child doc tag_name = None \<longleftrightarrow> Tag tag_name \<notin> set (map el_tag (el_children doc))"
  by (simp add: find_child_def find_None_iff image_iff) metis

lemma el_tag_set_value_text: "el_tag (set_value_text key v e) = el_tag e"
  by (simp add: set_value_text_def set_children_def)

lemma child_tags_in_section:
  "(\<And>x. el_tag (f x) = el_tag x) \<Longrightarrow>
   map el_tag (el_children (in_section tag_name f root)) = map el_tag (el_children root)"
  by (simp add: in_section_def set_children_def map_el_tag_update_first)

lemma child_tags_patched_template:
  "map el_tag (el_children (patched_template t scenario rcp ssp)) = map el_tag (el_children t)"
  by (simp add: patched_template_def update_scenario_name_def update_policy_target_def
      update_database_location_def child_tags_in_section el_tag_set_value_text)

text \<open>
  Claim C10. When a document has no components region, \<open>append_ssp_components\<close> leaves the
  whole state as it is, whatever the entries. When the template has none, a scenario whose
  name is defined, whose pathway file yields components and whose output file can be
  written still succeeds: the pipeline returns the path, writes the patched template with
  no component in it, and the sequential batch lists the path.
\<close>

theorem absent_components_region:
  assumes absent: "find_child (store s ! r) ''ScenarioComponents'' = None"
      and wf: "well_formed E st"
      and tmpl: "find_child (store st ! template_root st) ''ScenarioComponents'' = None"
      and nm: "generate_scenario_name ssp rcp pr_rate tech supply allocation = Inr scenario"
      and comps: "read_ssp_components E ssp \<noteq> []"
      and wr: "writable E (output_file output_path scenario)"
  shows "append_ssp_components s r entries = s \<and>
         fst (generate_single_scenario E output_path st (ssp, rcp, pr_rate, tech, supply, allocation)) =
           Returned (Some (output_file output_path scenario)) \<and>
         written (snd (generate_single_scenario E output_path st
                         (ssp, rcp, pr_rate, tech, supply, allocation))) =
           (output_file output_path scenario,
            patched_template (store st ! template_root st) scenario rcp ssp) # written st \<and>
         fst (generate_sequential E output_path st [(ssp, rcp, pr_rate, tech, supply, allocation)]) =
           [output_file output_path scenario]"
proof -
  let ?sc = "(ssp, rcp, pr_rate, tech, supply, allocation)"
  let ?t = "store st ! template_root st"
  let ?file = "output_file output_path scenario"
  from absent have 1: "append_ssp_components s r entries = s"
    by (simp add: append_ssp_components_def)
  obtain oc st' where g: "generate_single_scenario E output_path st ?sc = (oc, st')"
    by (cases "generate_single_scenario E output_path st ?sc") auto
  from generate_single_scenario_ok [OF wf g]
  have oc: "oc = pipeline_outcome E output_path ?sc"
    and w: "written st' = pipeline_writes E output_path ?t ?sc @ written st" by simp_all
  from tmpl have "find_child (patched_template ?t scenario rcp ssp) ''ScenarioComponents'' = None"
    by (simp add: find_child_None_iff child_tags_patched_template)
  then have wc: "with_components (read_ssp_components E ssp) (patched_template ?t scenario rcp ssp) =
      patched_template ?t scenario rcp ssp"
    by (simp add: with_components_def)
  from oc nm comps wr have 2: "oc = Returned (Some ?file)"
    by (simp add: pipeline_outcome_def pipeline_succeeds_def)
  from w nm comps wr wc have 3: "written st' = (?file, patched_template ?t scenario rcp ssp) # written st"
    by (simp add: pipeline_writes_def pipeline_succeeds_def)
  from g 2 have 4: "fst (generate_sequential E output_path st [?sc]) = [?file]"
    by (simp add: generate_sequential_def sequential_loop_files)
  from 1 2 3 4 g show ?thesis by simp
qed

text \<open>A generator whose template has no components region, and the source file of
  \<open>SSP1\<close>.\<close>

theorem absent_components_region_witness:
  "find_child (store bare_state ! 0) ''ScenarioComponents'' = None \<and>
   well_formed demo_env bare_state \<and>
   find_child (store bare_state ! template_root bare_state) ''ScenarioComponents'' = None \<and>
   generate_scenario_name ''SSP1'' ''6p0'' 25 ''Advanced'' ''Low'' ''Regulatory'' =
     Inr ''SSP1_6p0_Tech_L_Reg_PR25'' \<and>
   read_ssp_components demo_env ''SSP1'' \<noteq> [] \<and>
   writable demo_env (output_file ''configs'' ''SSP1_6p0_Tech_L_Reg_PR25'') \<and>
   append_ssp_components bare_state 0 [(''pop'', ''../input/pop.xml'')] = bare_state \<and>
   fst (generate_single_scenario demo_env ''configs'' bare_state
          (''SSP1'', ''6p0'', 25, ''Advanced'', ''Low'', ''Regulatory'')) =
     Returned (Some (output_file ''configs'' ''SSP1_6p0_Tech_L_Reg_PR25'')) \<and>
   fst (generate_sequential demo_env ''configs'' bare_state
          [(''SSP1'', ''6p0'', 25, ''Advanced'', ''Low'', ''Regulatory'')]) =
     [output_file ''configs'' ''SSP1_6p0_Tech_L_Reg_PR25'']"
proof -
  have a: "find_child (store bare_state ! 0) ''ScenarioComponents'' = None"
    by (simp add: bare_state_def bare_template_def find_child_def)
  have b: "well_formed demo_env bare_state"
    by (simp add: well_formed_def bare_state_def)
  have c: "find_child (store bare_state ! template_root bare_state) ''ScenarioComponents'' = None"
    by (simp add: bare_state_def bare_template_def find_child_def)
  have d: "generate_scenario_name ''SSP1'' ''6p0'' 25 ''Advanced'' ''Low'' ''Regulatory'' =
      Inr ''SSP1_6p0_Tech_L_Reg_PR25''"
    by (simp add: generate_scenario_name_def py_str_int_rates)
  have e: "read_ssp_components demo_env ''SSP1'' \<noteq> []"
    by (simp add: demo_read_ssp1)
  have f: "writable demo_env (output_file ''configs'' ''SSP1_6p0_Tech_L_Reg_PR25'')"
    by (rule demo_writable)
  note w = absent_components_region [OF a b c d e f, of "[(''pop'', ''../input/pop.xml'')]"]
  from w have 1: "append_ssp_components bare_state 0 [(''pop'', ''../input/pop.xml'')] = bare_state"
    by (rule conjunct1)
  from w have 2: "fst (generate_single_scenario demo_env ''configs'' bare_state
          (''SSP1'', ''6p0'', 25, ''Advanced'', ''Low'', ''Regulatory'')) =
     Returned (Some (output_file ''configs'' ''SSP1_6p0_Tech_L_Reg_PR25''))"
    by (rule conjunct1 [OF conjunct2])
  from w have 3: "fst (generate_sequential demo_env ''configs'' bare_state
          [(''SSP1'', ''6p0'', 25, ''Advanced'', ''Low'', ''Regulatory'')]) =
     [output_file ''configs'' ''SSP1_6p0_Tech_L_Reg_PR25'']"
    by (rule conjunct2 [OF conjunct2 [OF conjunct2]])
  from a b c d e f 1 2 3 show ?thesis by (intro conjI)
qed



subsection \<open>The order of completion\<close>

lemma set_completed_loop:
  "set (completed_loop ocs []) = {f. Returned (Some f) \<in> set ocs}"
proof (induction ocs)
  case Nil
  then show ?case by simp
next
  case (Cons oc ocs)
  then show ?case
    by (auto simp: completed_loop_Cons split: task_outcome.splits option.splits)
qed

text \<open>
  The loop over the finished futures collects the same set of paths in every order of
  completion: when each future holds the outcome its tuple has in a well-formed state,
  and every future finishes once, the concurrent path returns the set of paths that the
  sequential path returns.
\<close>

lemma concurrent_files_any_order:
  assumes wf: "well_formed E st"
      and res: "results S = map (pipeline_outcome E output_path) scs"
      and d: "distinct (completion S)"
      and c: "set (completion S) = {..<length scs}"
  shows "set (fst (generate_concurrent S scs)) = set (fst (generate_sequential E output_path st scs))"
proof -
  from res have l: "length (results S) = length scs" by simp
  have "(\<lambda>i. results S ! i) ` set (completion S) = set (results S)"
    unfolding c using l by (auto simp: set_conv_nth image_iff)
  then have "set (fst (generate_concurrent S scs)) = {f. Returned (Some f) \<in> set (results S)}"
    by (simp add: generate_concurrent_def set_completed_loop)
  moreover have "set (fst (generate_sequential E output_path st scs)) =
      {f. Returned (Some f) \<in> set (results S)}"
    by (simp add: generate_sequential_def sequential_loop_files sequential_outcomes_wf [OF wf]
        set_completed_loop res)
  ultimately show ?thesis by simp
qed


end
